theory Spec2Isabelle
  imports Complex_Main
begin

section \<open>Numbers\<close>

text \<open>
  The notebooks compute with Python floats and state their formulas over the real
  numbers. Every quantity is modelled as a \<open>real\<close>: the arithmetic below is the exact
  arithmetic of the formulas, not IEEE rounding.
\<close>

section \<open>The PyClaw objects the notebooks configure\<close>

text \<open>
  \<open>rs\<close> is bound to one of the Riemann kernels of \<open>clawpack.riemann\<close>. The kernels
  are library functions; the constructors only store a reference to one.
\<close>

datatype kernel =
    euler_roe_1D
  | euler_hll_1D
  | burgers_1D_py
  | burgers_1D

datatype solver_class = ClawSolver1D | SharpClawSolver1D

datatype bc = custom | extrap | periodic | wall

text \<open>
  The attributes of a solver object that the notebooks read or assign. \<open>bc_lower\<close> and
  \<open>bc_upper\<close> stand for entry \<open>[0]\<close> of the attribute of the same name (the solvers
  are one-dimensional).
\<close>

record solver =
  cls :: solver_class
  rp :: kernel
  order :: int
  time_integrator :: string
  cfl_max :: real
  cfl_desired :: real
  lim_type :: int
  kernel_language :: string
  bc_lower :: bc
  bc_upper :: bc

text \<open>
  The constructors \<open>pyclaw.ClawSolver1D(rs)\<close> and \<open>pyclaw.SharpClawSolver1D(rs)\<close>
  belong to the PyClaw library: the attribute values they start from are a parameter
  \<open>lib\<close> of everything below, a function from the class to a solver object holding the
  library's defaults.
\<close>

type_synonym pyclaw = "solver_class \<Rightarrow> solver"

definition new_solver :: "pyclaw \<Rightarrow> solver_class \<Rightarrow> kernel \<Rightarrow> solver" where
  "new_solver lib c rs = (lib c)\<lparr>cls := c, rp := rs\<rparr>"

record dimension =
  lower :: real
  upper :: real
  num_cells :: nat
  name :: string

text \<open>Cell centres of a uniform grid: \<open>state.grid.p_centers[0]\<close>.\<close>

definition p_centers :: "dimension \<Rightarrow> real list" where
  "p_centers x =
     map (\<lambda>i. lower x + (real i + 1 / 2) * ((upper x - lower x) / real (num_cells x)))
       [0 ..< num_cells x]"

datatype pd_value = Num real | Flag bool

text \<open>
  A state: the dictionary \<open>problem_data\<close> and the array \<open>q\<close>, one row of cell values
  per conserved quantity.
\<close>

record state =
  problem_data :: "string \<rightharpoonup> pd_value"
  state_q :: "nat \<rightharpoonup> real list"

definition State :: state where
  "State = \<lparr>problem_data = Map.empty, state_q = Map.empty\<rparr>"

record controller =
  tfinal :: real
  solution_state :: state
  solution_domain :: "dimension list"
  claw_solver :: solver
  num_output_times :: nat
  keep_copy :: bool
  verbosity :: int

text \<open>
  An unbound local variable read in a function body raises \<open>UnboundLocalError\<close>, a
  subclass of \<open>NameError\<close>.
\<close>

datatype error = NameError

text \<open>A boolean array times a number, as NumPy computes it: \<open>True\<close> is 1, \<open>False\<close> is 0.\<close>

definition ind :: "bool \<Rightarrow> real" where
  "ind b = (if b then 1 else 0)"

section \<open>The Euler problems\<close>

text \<open>Row indices of \<open>clawpack.riemann.euler_with_efix_1D_constants\<close>.\<close>

definition density :: nat where "density = 0"
definition momentum :: nat where "momentum = 1"
definition energy :: nat where "energy = 2"

text \<open>
  The chain \<open>if riemann_solver == 'Roe': ... elif riemann_solver == 'HLL': ...\<close> has no
  \<open>else\<close>: for any other argument \<open>rs\<close> stays unbound.
\<close>

definition select_rs :: "string \<Rightarrow> kernel option" where
  "select_rs riemann_solver =
     (if riemann_solver = ''Roe'' then Some euler_roe_1D
      else if riemann_solver = ''HLL'' then Some euler_hll_1D
      else None)"

text \<open>
  \<open>shocktube(q_l, q_r, N, riemann_solver, solver_type)\<close>; \<open>q_l\<close> and \<open>q_r\<close> are
  primitive states (density, velocity, pressure). Python's default arguments
  (\<open>N=50\<close>, \<open>riemann_solver='HLL'\<close>, \<open>solver_type='classic'\<close>) are written out at
  each call.
\<close>

definition shocktube ::
  "pyclaw \<Rightarrow> real \<times> real \<times> real \<Rightarrow> real \<times> real \<times> real \<Rightarrow> nat \<Rightarrow> string \<Rightarrow> string
     \<Rightarrow> error + controller" where
  "shocktube lib q_l q_r N riemann_solver solver_type =
     (case select_rs riemann_solver of
        None \<Rightarrow> Inl NameError
      | Some rs \<Rightarrow>
          let solver0 =
                (if solver_type = ''classic'' then new_solver lib ClawSolver1D rs
                 else new_solver lib SharpClawSolver1D rs);
              solver1 = solver0\<lparr>kernel_language := ''Python'',
                                bc_lower := extrap, bc_upper := extrap\<rparr>;
              x = \<lparr>lower = -1, upper = 1, num_cells = N, name = ''x''\<rparr>;
              domain = [x];
              gamma = 14 / 10;
              pd = (problem_data State)
                     (''gamma'' \<mapsto> Num gamma, ''gamma1'' \<mapsto> Num (gamma - 1),
                      ''efix'' \<mapsto> Flag False);
              xc = p_centers x;
              (rho_l, u_l, p_l) = q_l;
              (rho_r, u_r, p_r) = q_r;
              velocity = map (\<lambda>c. ind (c \<le> 0) * u_l + ind (c > 0) * u_r) xc;
              pressure = map (\<lambda>c. ind (c \<le> 0) * p_l + ind (c > 0) * p_r) xc;
              rho = map (\<lambda>c. ind (c \<le> 0) * rho_l + ind (c > 0) * rho_r) xc;
              mom = map2 (\<lambda>v r. v * r) velocity rho;
              en = map2 (\<lambda>p (r, v). p / (gamma - 1) + 1 / 2 * r * v\<^sup>2)
                     pressure (zip rho velocity);
              st = State\<lparr>problem_data := pd,
                         state_q := (state_q State)
                           (density \<mapsto> rho, momentum \<mapsto> mom, energy \<mapsto> en)\<rparr>
          in Inr \<lparr>tfinal = 1 / 2, solution_state = st, solution_domain = domain,
                  claw_solver = solver1, num_output_times = 10, keep_copy = True,
                  verbosity = 0\<rparr>)"

text \<open>
  \<open>blastwave(q_l, q_r, N, riemann_solver, solver_type)\<close>, with the defaults
  \<open>N=400\<close>, \<open>riemann_solver='HLL'\<close>, \<open>solver_type='classic'\<close>. The arguments
  \<open>q_l\<close> and \<open>q_r\<close> are not used by the body.
\<close>

definition blastwave ::
  "pyclaw \<Rightarrow> real \<times> real \<times> real \<Rightarrow> real \<times> real \<times> real \<Rightarrow> nat \<Rightarrow> string \<Rightarrow> string
     \<Rightarrow> error + controller" where
  "blastwave lib q_l q_r N riemann_solver solver_type =
     (case select_rs riemann_solver of
        None \<Rightarrow> Inl NameError
      | Some rs \<Rightarrow>
          let solver0 =
                (if solver_type = ''classic'' then new_solver lib ClawSolver1D rs
                 else (new_solver lib SharpClawSolver1D rs)
                        \<lparr>time_integrator := ''SSP33'', cfl_max := 65 / 100,
                         cfl_desired := 6 / 10, lim_type := 1\<rparr>);
              solver1 = solver0\<lparr>kernel_language := ''Python'',
                                bc_lower := extrap, bc_upper := extrap\<rparr>;
              x = \<lparr>lower = 0, upper = 1, num_cells = N, name = ''x''\<rparr>;
              domain = [x];
              gamma = 14 / 10;
              pd = (problem_data State)
                     (''gamma'' \<mapsto> Num gamma, ''gamma1'' \<mapsto> Num (gamma - 1),
                      ''efix'' \<mapsto> Flag False);
              xc = p_centers x;
              rho = map (\<lambda>c. 1) xc;
              mom = map (\<lambda>c. 0) xc;
              en = map (\<lambda>c. (ind (c < 1 / 10) * 1000
                               + ind (1 / 10 \<le> c) * ind (c < 9 / 10) * (1 / 100)
                               + ind (9 / 10 \<le> c) * 100) / (gamma - 1)) xc;
              st = State\<lparr>problem_data := pd,
                         state_q := (state_q State)
                           (density \<mapsto> rho, momentum \<mapsto> mom, energy \<mapsto> en)\<rparr>
          in Inr \<lparr>tfinal = 38 / 1000, solution_state = st, solution_domain = domain,
                  claw_solver = solver1, num_output_times = 10, keep_copy = True,
                  verbosity = 0\<rparr>)"

text \<open>
  The default attribute values PyClaw documents for its two solver classes, used as
  the concrete library at which statements are evaluated: the classic solver runs at
  CFL 0.9 (at most 1.0), SharpClaw integrates with the ten-stage \<open>SSP104\<close> method at
  CFL 2.45 (at most 2.5), both with Fortran kernels. An attribute that a class does
  not have (\<open>time_integrator\<close> and \<open>lim_type\<close> of the classic solver, \<open>order\<close> of
  SharpClaw) holds a placeholder that nothing reads.
\<close>

definition pyclaw_defaults :: pyclaw where
  "pyclaw_defaults c =
     (case c of
        ClawSolver1D \<Rightarrow>
          \<lparr>cls = ClawSolver1D, rp = burgers_1D, order = 2, time_integrator = [],
           cfl_max = 1, cfl_desired = 9 / 10, lim_type = 0,
           kernel_language = ''Fortran'', bc_lower = custom, bc_upper = custom\<rparr>
      | SharpClawSolver1D \<Rightarrow>
          \<lparr>cls = SharpClawSolver1D, rp = burgers_1D, order = 0,
           time_integrator = ''SSP104'', cfl_max = 25 / 10, cfl_desired = 245 / 100,
           lim_type = 2, kernel_language = ''Fortran'', bc_lower = custom,
           bc_upper = custom\<rparr>)"

section \<open>The Burgers problem\<close>

text \<open>
  \<open>setup(q_l, q_r, N, efix, solver_type, order, lang)\<close> of the Burgers notebook,
  with the defaults \<open>N=500\<close>, \<open>efix=False\<close>, \<open>solver_type='classic'\<close>, \<open>order=1\<close>,
  \<open>lang='Python'\<close>. It has no failing path: \<open>rs\<close> is bound in both branches of
  \<open>if lang == 'Python'\<close>.
\<close>

definition setup_claw ::
  "pyclaw \<Rightarrow> real \<Rightarrow> real \<Rightarrow> nat \<Rightarrow> bool \<Rightarrow> string \<Rightarrow> int \<Rightarrow> string \<Rightarrow> controller" where
  "setup_claw lib q_l q_r N efix solver_type ord lang =
     (let rs = (if lang = ''Python'' then burgers_1D_py else burgers_1D);
          solver0 =
            (if solver_type = ''classic''
             then (new_solver lib ClawSolver1D rs)\<lparr>order := ord\<rparr>
             else new_solver lib SharpClawSolver1D rs);
          solver1 = solver0\<lparr>kernel_language := lang,
                            bc_lower := extrap, bc_upper := extrap\<rparr>;
          x = \<lparr>lower = -1, upper = 1, num_cells = N, name = ''x''\<rparr>;
          domain = [x];
          pd = (problem_data State)(''efix'' \<mapsto> Flag efix);
          xc = p_centers x;
          st = State\<lparr>problem_data := pd,
                     state_q := (state_q State)
                       (0 \<mapsto> map (\<lambda>c. ind (c \<le> 0) * q_l + ind (c > 0) * q_r) xc)\<rparr>
      in \<lparr>tfinal = 1 / 2, solution_state = st, solution_domain = domain,
           claw_solver = solver1, num_output_times = 10, keep_copy = True,
           verbosity = 0\<rparr>)"

text \<open>The entry \<open>problem_data['efix']\<close> of a controller's state, which the kernel reads.\<close>

definition efix_flag :: "controller \<Rightarrow> pd_value option" where
  "efix_flag claw = problem_data (solution_state claw) ''efix''"

text \<open>The time-stepping attributes of the solver a controller holds.\<close>

definition time_stepping :: "controller \<Rightarrow> string \<times> real \<times> real" where
  "time_stepping claw =
     (time_integrator (claw_solver claw), cfl_desired (claw_solver claw),
      cfl_max (claw_solver claw))"

section \<open>Approximate Riemann solvers for Burgers' equation\<close>

text \<open>
  The Burgers notebook states its solvers as formulas; the definitions below are
  those formulas, section by section. The kernel that \<open>setup\<close> hands to the solver is
  a function of the \<open>clawpack.riemann\<close> library and is not part of the notebook: it is
  not modelled, and nothing below says what it returns. A wave is a pair of a strength
  and a speed.
\<close>

type_synonym wave = "real \<times> real"

text \<open>The flux of \<open>q_t + (q\<^sup>2/2)_x = 0\<close>.\<close>

definition flux :: "real \<Rightarrow> real" where
  "flux u = u\<^sup>2 / 2"

text \<open>
  The Rankine-Hugoniot condition \<open>f(q_r) - f(q_l) = s (q_r - q_l)\<close> and the speed it
  gives a discontinuity, \<open>s = (f(q_r) - f(q_l)) / (q_r - q_l)\<close>. The quotient has no
  value when the two states are equal.
\<close>

definition rankine_hugoniot :: "real \<Rightarrow> real \<Rightarrow> real \<Rightarrow> bool" where
  "rankine_hugoniot s q_l q_r \<longleftrightarrow> flux q_r - flux q_l = s * (q_r - q_l)"

definition shock_speed :: "real \<Rightarrow> real \<Rightarrow> real option" where
  "shock_speed q_l q_r =
     (if q_r - q_l = 0 then None else Some ((flux q_r - flux q_l) / (q_r - q_l)))"

text \<open>
  ``A Roe solver'': one wave \<open>W = q_r - q_l\<close> travelling at the speed of the
  linearisation state \<open>(q_r + q_l) / 2\<close>.
\<close>

definition roe_average :: "real \<Rightarrow> real \<Rightarrow> real" where
  "roe_average q_l q_r = (q_r + q_l) / 2"

definition roe_waves :: "real \<Rightarrow> real \<Rightarrow> wave list" where
  "roe_waves q_l q_r = [(q_r - q_l, roe_average q_l q_r)]"

text \<open>
  ``Two-wave solvers'', the full HLL approach: \<open>s_1 = min(q_l, q_r)\<close>,
  \<open>s_2 = max(q_l, q_r)\<close> and the middle state \<open>q_m = (q_r + q_l) / 2\<close>; the waves
  are \<open>(q_m - q_l, s_1)\<close> and \<open>(q_r - q_m, s_2)\<close>.
\<close>

definition hll_s1 :: "real \<Rightarrow> real \<Rightarrow> real" where
  "hll_s1 q_l q_r = min q_l q_r"

definition hll_s2 :: "real \<Rightarrow> real \<Rightarrow> real" where
  "hll_s2 q_l q_r = max q_l q_r"

definition hll_q_m :: "real \<Rightarrow> real \<Rightarrow> real" where
  "hll_q_m q_l q_r = (q_r + q_l) / 2"

definition hll_waves :: "real \<Rightarrow> real \<Rightarrow> wave list" where
  "hll_waves q_l q_r =
     [(hll_q_m q_l q_r - q_l, hll_s1 q_l q_r), (q_r - hll_q_m q_l q_r, hll_s2 q_l q_r)]"

text \<open>
  Modelled from the spec: the closed form of the HLL middle state, which the notebook
  does not write out. Section 4.1 obtains \<open>q_m\<close> from conservation across both speeds,
  \<open>s_1 (q_m - q_l) + s_2 (q_r - q_m) = f(q_r) - f(q_l)\<close>; solved for \<open>q_m\<close> this
  divides by \<open>s_1 - s_2\<close>.
\<close>

definition hll_middle :: "real \<Rightarrow> real \<Rightarrow> real \<Rightarrow> real \<Rightarrow> real option" where
  "hll_middle s1 s2 q_l q_r =
     (if s1 - s2 = 0 then None
      else Some ((flux q_r - flux q_l - s2 * q_r + s1 * q_l) / (s1 - s2)))"

text \<open>
  ``Transonic rarefactions'': the interface is transonic when \<open>q_l < 0 < q_r\<close>. The
  entropy fix uses two waves around the sonic point \<open>q_s = 0\<close>:
  \<open>W_1 = q_m - q_l\<close> at speed \<open>(q_l + q_m) / 2\<close> and \<open>W_2 = q_r - q_m\<close> at speed
  \<open>(q_m + q_r) / 2\<close>, with \<open>q_m = q_s\<close>. These are the waves of the notebook's text.
\<close>

definition transonic :: "real \<Rightarrow> real \<Rightarrow> bool" where
  "transonic q_l q_r \<longleftrightarrow> q_l < 0 \<and> 0 < q_r"

definition q_s :: real where
  "q_s = 0"

definition efix_waves :: "real \<Rightarrow> real \<Rightarrow> wave list" where
  "efix_waves q_l q_r =
     (let q_m = q_s
      in [(q_m - q_l, (q_l + q_m) / 2), (q_r - q_m, (q_m + q_r) / 2)])"

text \<open>
  Modelled from the spec: the fluctuations, which the notebook names (\<open>\amdq\<close>,
  \<open>\apdq\<close>) without defining them. Section 3 makes them the parts of the flux
  difference carried by the left-going and by the right-going waves.
\<close>

definition amdq :: "wave list \<Rightarrow> real" where
  "amdq ws = sum_list (map (\<lambda>(W, s). min s 0 * W) ws)"

definition apdq :: "wave list \<Rightarrow> real" where
  "apdq ws = sum_list (map (\<lambda>(W, s). max s 0 * W) ws)"

text \<open>Sums over a decomposition: of the strengths, and of speed times strength.\<close>

definition total_strength :: "wave list \<Rightarrow> real" where
  "total_strength ws = sum_list (map fst ws)"

definition total_flux_jump :: "wave list \<Rightarrow> real" where
  "total_flux_jump ws = sum_list (map (\<lambda>(W, s). s * W) ws)"

section \<open>The constructors of the Euler notebook\<close>

lemma select_rs_Roe: "select_rs ''Roe'' = Some euler_roe_1D"
  by (simp add: select_rs_def)

lemma select_rs_HLL: "select_rs ''HLL'' = Some euler_hll_1D"
  by (simp add: select_rs_def)

lemma shocktube_returns:
  "select_rs riemann_solver = Some k \<Longrightarrow>
     \<exists>c. shocktube lib q_l q_r N riemann_solver solver_type = Inr c"
  by (simp add: shocktube_def Let_def split: prod.splits)

lemma blastwave_returns:
  "select_rs riemann_solver = Some k \<Longrightarrow>
     \<exists>c. blastwave lib q_l q_r N riemann_solver solver_type = Inr c"
  by (simp add: blastwave_def Let_def split: prod.splits)

text \<open>
  C8. Every controller that \<open>shocktube\<close> or \<open>blastwave\<close> returns has
  \<open>problem_data['efix'] = False\<close>, whatever the Riemann solver, the solver type, the
  states, the grid size and the library defaults are: the entropy fix is never switched
  on for an Euler problem.
\<close>

theorem euler_efix_False:
  "(\<forall>claw. shocktube lib q_l q_r N riemann_solver solver_type = Inr claw \<longrightarrow>
       efix_flag claw = Some (Flag False))
   \<and> (\<forall>claw. blastwave lib q_l q_r N riemann_solver solver_type = Inr claw \<longrightarrow>
       efix_flag claw = Some (Flag False))"
  by (auto simp: shocktube_def blastwave_def efix_flag_def State_def Let_def
      split: option.splits prod.splits)

theorem euler_efix_False_witness:
  "map_sum id efix_flag
     (shocktube pyclaw_defaults (1, 0, 1) (1 / 8, 0, 1 / 10) 50 ''Roe'' ''classic'')
     = Inr (Some (Flag False))
   \<and> map_sum id efix_flag
     (shocktube pyclaw_defaults (1, 0, 1) (1 / 8, 0, 1 / 10) 50 ''HLL'' ''sharpclaw'')
     = Inr (Some (Flag False))
   \<and> map_sum id efix_flag
     (blastwave pyclaw_defaults (1, 0, 1) (1 / 8, 0, 1 / 10) 400 ''Roe'' ''sharpclaw'')
     = Inr (Some (Flag False))
   \<and> map_sum id efix_flag
     (blastwave pyclaw_defaults (1, 0, 1) (1 / 8, 0, 1 / 10) 400 ''HLL'' ''classic'')
     = Inr (Some (Flag False))"
proof -
  let ?l = "(1, 0, 1) :: real \<times> real \<times> real"
  let ?r = "(1 / 8, 0, 1 / 10) :: real \<times> real \<times> real"
  obtain c1 where c1: "shocktube pyclaw_defaults ?l ?r 50 ''Roe'' ''classic'' = Inr c1"
    using shocktube_returns [OF select_rs_Roe] by blast
  obtain c2 where c2: "shocktube pyclaw_defaults ?l ?r 50 ''HLL'' ''sharpclaw'' = Inr c2"
    using shocktube_returns [OF select_rs_HLL] by blast
  obtain c3 where c3: "blastwave pyclaw_defaults ?l ?r 400 ''Roe'' ''sharpclaw'' = Inr c3"
    using blastwave_returns [OF select_rs_Roe] by blast
  obtain c4 where c4: "blastwave pyclaw_defaults ?l ?r 400 ''HLL'' ''classic'' = Inr c4"
    using blastwave_returns [OF select_rs_HLL] by blast
  from euler_efix_False [of pyclaw_defaults ?l ?r 50 "''Roe''" "''classic''"] c1
  have 1: "efix_flag c1 = Some (Flag False)" by simp
  from euler_efix_False [of pyclaw_defaults ?l ?r 50 "''HLL''" "''sharpclaw''"] c2
  have 2: "efix_flag c2 = Some (Flag False)" by simp
  from euler_efix_False [of pyclaw_defaults ?l ?r 400 "''Roe''" "''sharpclaw''"] c3
  have 3: "efix_flag c3 = Some (Flag False)" by simp
  from euler_efix_False [of pyclaw_defaults ?l ?r 400 "''HLL''" "''classic''"] c4
  have 4: "efix_flag c4 = Some (Flag False)" by simp
  show ?thesis by (simp add: c1 c2 c3 c4 1 2 3 4)
qed

text \<open>
  C9, as stated: every high-order solver the code builds runs \<open>SSP33\<close> at
  \<open>cfl_desired = 0.6\<close>, \<open>cfl_max = 0.65\<close>, the one of \<open>shocktube\<close> included. The
  SharpClaw branch of \<open>shocktube\<close> assigns none of the three attributes, so its solver
  runs with what the library's constructor set: with PyClaw's defaults that is
  \<open>SSP104\<close> at CFL 2.45 and 2.5.
\<close>

theorem shocktube_high_order_not_SSP33:
  "map_sum id time_stepping
     (shocktube pyclaw_defaults (1, 0, 1) (1 / 8, 0, 1 / 10) 50 ''Roe'' ''sharpclaw'')
     = Inr (''SSP104'', 245 / 100, 25 / 10)
   \<and> map_sum id time_stepping
     (shocktube pyclaw_defaults (1, 0, 1) (1 / 8, 0, 1 / 10) 50 ''Roe'' ''sharpclaw'')
     \<noteq> Inr (''SSP33'', 6 / 10, 65 / 100)"
  by (simp add: shocktube_def select_rs_def Let_def time_stepping_def new_solver_def
      pyclaw_defaults_def)

text \<open>
  C9, amended. For a solver type other than \<open>'classic'\<close>, the SharpClaw solver of
  \<open>blastwave\<close> is set to \<open>SSP33\<close> with \<open>cfl_desired = 0.6\<close> and \<open>cfl_max = 0.65\<close>,
  whatever the library defaults are, while the SharpClaw solver of \<open>shocktube\<close> keeps the
  library's time integrator and CFL numbers unchanged. For \<open>'classic'\<close> both functions
  keep the time-stepping attributes of the library's classic solver.
\<close>

theorem high_order_time_stepping:
  "(solver_type \<noteq> ''classic'' \<longrightarrow>
      (\<forall>c. blastwave lib q_l q_r N riemann_solver solver_type = Inr c \<longrightarrow>
         cls (claw_solver c) = SharpClawSolver1D \<and>
         time_stepping c = (''SSP33'', 6 / 10, 65 / 100))
    \<and> (\<forall>c. shocktube lib q_l q_r N riemann_solver solver_type = Inr c \<longrightarrow>
         cls (claw_solver c) = SharpClawSolver1D \<and>
         time_stepping c =
           (time_integrator (lib SharpClawSolver1D), cfl_desired (lib SharpClawSolver1D),
            cfl_max (lib SharpClawSolver1D))))
   \<and> (solver_type = ''classic'' \<longrightarrow>
      (\<forall>c. blastwave lib q_l q_r N riemann_solver solver_type = Inr c \<or>
           shocktube lib q_l q_r N riemann_solver solver_type = Inr c \<longrightarrow>
         cls (claw_solver c) = ClawSolver1D \<and>
         time_stepping c =
           (time_integrator (lib ClawSolver1D), cfl_desired (lib ClawSolver1D),
            cfl_max (lib ClawSolver1D))))"
  by (auto simp: shocktube_def blastwave_def Let_def time_stepping_def new_solver_def
      split: option.splits prod.splits)

theorem high_order_time_stepping_witness:
  "map_sum id time_stepping
     (blastwave pyclaw_defaults (1, 0, 1) (1 / 8, 0, 1 / 10) 400 ''Roe'' ''sharpclaw'')
     = Inr (''SSP33'', 6 / 10, 65 / 100)
   \<and> map_sum id time_stepping
     (shocktube pyclaw_defaults (1, 0, 1) (1 / 8, 0, 1 / 10) 400 ''Roe'' ''sharpclaw'')
     = Inr (time_integrator (pyclaw_defaults SharpClawSolver1D),
            cfl_desired (pyclaw_defaults SharpClawSolver1D),
            cfl_max (pyclaw_defaults SharpClawSolver1D))
   \<and> map_sum id time_stepping
     (shocktube pyclaw_defaults (1, 0, 1) (1 / 8, 0, 1 / 10) 50 ''HLL'' ''classic'')
     = Inr (time_integrator (pyclaw_defaults ClawSolver1D),
            cfl_desired (pyclaw_defaults ClawSolver1D),
            cfl_max (pyclaw_defaults ClawSolver1D))"
proof -
  let ?l = "(1, 0, 1) :: real \<times> real \<times> real"
  let ?r = "(1 / 8, 0, 1 / 10) :: real \<times> real \<times> real"
  have n: "''sharpclaw'' \<noteq> ''classic''" by simp
  obtain c where c: "blastwave pyclaw_defaults ?l ?r 400 ''Roe'' ''sharpclaw'' = Inr c"
    using blastwave_returns [OF select_rs_Roe] by blast
  obtain d where d: "shocktube pyclaw_defaults ?l ?r 400 ''Roe'' ''sharpclaw'' = Inr d"
    using shocktube_returns [OF select_rs_Roe] by blast
  obtain e where e: "shocktube pyclaw_defaults ?l ?r 50 ''HLL'' ''classic'' = Inr e"
    using shocktube_returns [OF select_rs_HLL] by blast
  from high_order_time_stepping [of "''sharpclaw''" pyclaw_defaults ?l ?r 400 "''Roe''"] n c d
  have 1: "time_stepping c = (''SSP33'', 6 / 10, 65 / 100)"
    and 2: "time_stepping d =
      (time_integrator (pyclaw_defaults SharpClawSolver1D),
       cfl_desired (pyclaw_defaults SharpClawSolver1D),
       cfl_max (pyclaw_defaults SharpClawSolver1D))"
    by simp_all
  from high_order_time_stepping [of "''classic''" pyclaw_defaults ?l ?r 50 "''HLL''"] e
  have 3: "time_stepping e =
      (time_integrator (pyclaw_defaults ClawSolver1D),
       cfl_desired (pyclaw_defaults ClawSolver1D),
       cfl_max (pyclaw_defaults ClawSolver1D))"
    by simp
  show ?thesis by (simp add: c d e 1 2 3)
qed

text \<open>
  C10. For every \<open>riemann_solver\<close> other than the strings \<open>'Roe'\<close> and \<open>'HLL'\<close>,
  \<open>rs\<close> is unbound and both \<open>shocktube\<close> and \<open>blastwave\<close> end in the name error at
  its first use. The two strings, and only they, select a kernel, which is the one a
  returned controller's solver holds.
\<close>

theorem unbound_rs_NameError:
  "(riemann_solver \<noteq> ''Roe'' \<and> riemann_solver \<noteq> ''HLL'' \<longrightarrow>
      select_rs riemann_solver = None \<and>
      shocktube lib q_l q_r N riemann_solver solver_type = Inl NameError \<and>
      blastwave lib q_l q_r N riemann_solver solver_type = Inl NameError)
   \<and> (riemann_solver = ''Roe'' \<or> riemann_solver = ''HLL'' \<longrightarrow>
      select_rs riemann_solver \<noteq> None \<and>
      shocktube lib q_l q_r N riemann_solver solver_type \<noteq> Inl NameError \<and>
      blastwave lib q_l q_r N riemann_solver solver_type \<noteq> Inl NameError)
   \<and> (\<forall>c. shocktube lib q_l q_r N riemann_solver solver_type = Inr c \<or>
           blastwave lib q_l q_r N riemann_solver solver_type = Inr c \<longrightarrow>
           select_rs riemann_solver = Some (rp (claw_solver c)))"
  by (auto simp: shocktube_def blastwave_def select_rs_def Let_def new_solver_def
      split: prod.splits)

theorem unbound_rs_NameError_witness:
  "shocktube pyclaw_defaults (1, 0, 1) (1 / 8, 0, 1 / 10) 50 ''roe'' ''classic''
     = Inl NameError
   \<and> blastwave pyclaw_defaults (1, 0, 1) (1 / 8, 0, 1 / 10) 400 ''Exact'' ''sharpclaw''
     = Inl NameError
   \<and> shocktube pyclaw_defaults (1, 0, 1) (1 / 8, 0, 1 / 10) 50 ''HLL'' ''classic''
     \<noteq> Inl NameError
   \<and> blastwave pyclaw_defaults (1, 0, 1) (1 / 8, 0, 1 / 10) 400 ''Roe'' ''classic''
     \<noteq> Inl NameError"
  using
    unbound_rs_NameError
      [of "''roe''" pyclaw_defaults "(1, 0, 1)" "(1 / 8, 0, 1 / 10)" 50 "''classic''"]
    unbound_rs_NameError
      [of "''Exact''" pyclaw_defaults "(1, 0, 1)" "(1 / 8, 0, 1 / 10)" 400 "''sharpclaw''"]
    unbound_rs_NameError
      [of "''HLL''" pyclaw_defaults "(1, 0, 1)" "(1 / 8, 0, 1 / 10)" 50 "''classic''"]
    unbound_rs_NameError
      [of "''Roe''" pyclaw_defaults "(1, 0, 1)" "(1 / 8, 0, 1 / 10)" 400 "''classic''"]
  by simp

section \<open>The Burgers decompositions\<close>

lemma setup_efix_flag:
  "efix_flag (setup_claw lib q_l q_r N efix solver_type ord lang) = Some (Flag efix)"
  by (simp add: setup_claw_def efix_flag_def Let_def State_def)

lemma flux_diff: "flux b - flux a = (a + b) / 2 * (b - a)"
  by (simp add: flux_def power2_eq_square algebra_simps diff_divide_distrib
      add_divide_distrib)

lemma roe_speed_jump: "flux q_r - flux q_l = roe_average q_l q_r * (q_r - q_l)"
  by (simp add: roe_average_def flux_diff add.commute)

subsection \<open>Conservation\<close>

text \<open>
  Each decomposition of the notebook carries the whole jump, and its speeds carry the
  whole flux difference: the strengths sum to \<open>q_r - q_l\<close> and the products of speed
  and strength sum to \<open>f(q_r) - f(q_l)\<close>. The two-wave formulas of the entropy fix do
  so for every pair of states, not only for transonic ones.
\<close>

lemma roe_conservation:
  "total_strength (roe_waves q_l q_r) = q_r - q_l \<and>
   total_flux_jump (roe_waves q_l q_r) = flux q_r - flux q_l"
  by (simp add: total_strength_def total_flux_jump_def roe_waves_def roe_speed_jump)

lemma efix_conservation:
  "total_strength (efix_waves q_l q_r) = q_r - q_l \<and>
   total_flux_jump (efix_waves q_l q_r) = flux q_r - flux q_l"
  by (simp add: total_strength_def total_flux_jump_def efix_waves_def q_s_def flux_def
      power2_eq_square)

lemma hll_half_jump:
  "hll_q_m q_l q_r - q_l = (q_r - q_l) / 2" "q_r - hll_q_m q_l q_r = (q_r - q_l) / 2"
  by (simp_all add: hll_q_m_def field_simps)

lemma hll_conservation:
  "total_strength (hll_waves q_l q_r) = q_r - q_l \<and>
   total_flux_jump (hll_waves q_l q_r) = flux q_r - flux q_l"
proof -
  have m: "min q_l q_r + max q_l q_r = q_l + q_r"
    by (simp add: min_def max_def)
  have "total_flux_jump (hll_waves q_l q_r) =
      (min q_l q_r + max q_l q_r) * ((q_r - q_l) / 2)"
    by (simp add: total_flux_jump_def hll_waves_def hll_half_jump hll_s1_def hll_s2_def
        distrib_right)
  also have "\<dots> = flux q_r - flux q_l"
    by (simp add: m flux_diff)
  finally show ?thesis
    by (simp add: total_strength_def hll_waves_def hll_half_jump)
qed

text \<open>The two fluctuations of any decomposition add up to its flux jump.\<close>

lemma fluctuations_split: "amdq ws + apdq ws = total_flux_jump ws"
proof (induction ws)
  case Nil
  then show ?case
    by (simp add: amdq_def apdq_def total_flux_jump_def)
next
  case (Cons w ws)
  obtain W s where w: "w = (W, s)"
    by (cases w)
  have "min s 0 * W + max s 0 * W = s * W"
    by (simp add: min_def max_def)
  with Cons show ?case
    by (simp add: amdq_def apdq_def total_flux_jump_def w algebra_simps)
qed

subsection \<open>Equal states\<close>

text \<open>
  At an interface with equal states the Roe and the two-wave HLL decomposition have
  zero strengths. The closed form of the HLL middle state, in contrast, has no value
  there: its denominator \<open>s_1 - s_2\<close> is zero.
\<close>

lemma degenerate_waves:
  "roe_waves u u = [(0, u)] \<and> hll_waves u u = [(0, u), (0, u)]"
  by (simp add: roe_waves_def roe_average_def hll_waves_def hll_q_m_def hll_s1_def
      hll_s2_def)

lemma hll_middle_degenerate: "hll_middle (hll_s1 u u) (hll_s2 u u) u u = None"
  by (simp add: hll_middle_def hll_s1_def hll_s2_def)

lemma hll_middle_distinct:
  assumes ne: "q_l \<noteq> q_r"
  shows "hll_middle (hll_s1 q_l q_r) (hll_s2 q_l q_r) q_l q_r = Some (hll_q_m q_l q_r)"
proof (cases "q_l < q_r")
  case True
  then have s: "hll_s1 q_l q_r = q_l" "hll_s2 q_l q_r = q_r"
    by (simp_all add: hll_s1_def hll_s2_def)
  have "flux q_r - flux q_l - q_r * q_r + q_l * q_l = (q_r + q_l) / 2 * (q_l - q_r)"
    by (simp add: flux_def power2_eq_square field_simps)
  with True show ?thesis
    by (simp add: hll_middle_def s hll_q_m_def)
next
  case False
  with ne have lt: "q_r < q_l"
    by simp
  then have s: "hll_s1 q_l q_r = q_r" "hll_s2 q_l q_r = q_l"
    by (simp_all add: hll_s1_def hll_s2_def)
  have "flux q_r - flux q_l - q_l * q_r + q_r * q_l = (q_r + q_l) / 2 * (q_r - q_l)"
    by (simp add: flux_def power2_eq_square field_simps)
  with lt show ?thesis
    by (simp add: hll_middle_def s hll_q_m_def)
qed

subsection \<open>The entropy fix\<close>

text \<open>
  The two waves of the notebook's entropy fix move in opposite directions at a
  transonic interface, so each fluctuation is the contribution of one of them:
  \<open>-q_l\<^sup>2/2\<close> to the left and \<open>q_r\<^sup>2/2\<close> to the right. The single unfixed wave
  puts the whole flux difference on one side.
\<close>

lemma efix_fluctuations:
  assumes "transonic q_l q_r"
  shows "amdq (efix_waves q_l q_r) = - (q_l\<^sup>2 / 2) \<and>
         apdq (efix_waves q_l q_r) = q_r\<^sup>2 / 2"
  using assms
  by (simp add: transonic_def amdq_def apdq_def efix_waves_def q_s_def min_def max_def
      power2_eq_square)

lemma roe_fluctuations:
  "amdq (roe_waves q_l q_r) = min (roe_average q_l q_r) 0 * (q_r - q_l) \<and>
   apdq (roe_waves q_l q_r) = max (roe_average q_l q_r) 0 * (q_r - q_l)"
  by (simp add: amdq_def apdq_def roe_waves_def)

subsection \<open>The Roe solver\<close>

text \<open>
  C3. The Roe solver returns the single wave \<open>q_r - q_l\<close> at the speed of the
  arithmetic mean \<open>(q_l + q_r) / 2\<close>. That speed satisfies the Rankine-Hugoniot
  condition for every pair of states; for two different states it is the speed the
  condition gives the discontinuity between them, and the only speed that satisfies
  it. (For a scalar law every pair of different states lies on one Hugoniot locus.)
\<close>

theorem roe_exact_for_shock:
  "roe_waves q_l q_r = [(q_r - q_l, (q_l + q_r) / 2)] \<and>
   rankine_hugoniot (roe_average q_l q_r) q_l q_r \<and>
   (q_l \<noteq> q_r \<longrightarrow> shock_speed q_l q_r = Some (roe_average q_l q_r)) \<and>
   (\<forall>s. q_l \<noteq> q_r \<and> rankine_hugoniot s q_l q_r \<longrightarrow> s = roe_average q_l q_r)"
proof -
  have rh: "rankine_hugoniot (roe_average q_l q_r) q_l q_r"
    by (simp add: rankine_hugoniot_def roe_speed_jump)
  have sp: "shock_speed q_l q_r = Some (roe_average q_l q_r)" if "q_l \<noteq> q_r"
    using that by (simp add: shock_speed_def roe_speed_jump)
  have un: "s = roe_average q_l q_r" if "q_l \<noteq> q_r" "rankine_hugoniot s q_l q_r" for s
  proof -
    from that(2) have "s * (q_r - q_l) = flux q_r - flux q_l"
      by (simp add: rankine_hugoniot_def)
    then have "s * (q_r - q_l) = roe_average q_l q_r * (q_r - q_l)"
      by (simp only: roe_speed_jump)
    with that(1) show ?thesis
      by auto
  qed
  show ?thesis
    using rh sp un by (simp add: roe_waves_def roe_average_def add.commute)
qed

text \<open>The shock \<open>q_l = 2\<close>, \<open>q_r = 1\<close>: strength \<open>q_r - q_l\<close>, speed 1.5.\<close>

theorem roe_exact_for_shock_witness:
  "roe_waves 2 1 = [(1 - 2, 3 / 2)] \<and> shock_speed 2 1 = Some (3 / 2) \<and>
   roe_average 2 1 = 3 / 2"
  using roe_exact_for_shock [of 2 1] by (simp add: roe_average_def)

subsection \<open>The two-wave HLL solver\<close>

text \<open>
  C4. For every pair of states the full HLL solver has the speeds
  \<open>s_1 = min(q_l, q_r)\<close> and \<open>s_2 = max(q_l, q_r)\<close> and the middle state
  \<open>q_m = (q_l + q_r) / 2\<close>; it returns the two waves \<open>(q_m - q_l, s_1)\<close> and
  \<open>(q_r - q_m, s_2)\<close>, each of strength \<open>(q_r - q_l) / 2\<close>, and this middle state
  meets the conservation condition of the two-wave approach.
\<close>

theorem hll_two_wave:
  "hll_s1 q_l q_r = min q_l q_r \<and> hll_s2 q_l q_r = max q_l q_r \<and>
   hll_q_m q_l q_r = (q_l + q_r) / 2 \<and>
   hll_waves q_l q_r =
     [(hll_q_m q_l q_r - q_l, hll_s1 q_l q_r), (q_r - hll_q_m q_l q_r, hll_s2 q_l q_r)] \<and>
   hll_waves q_l q_r = [((q_r - q_l) / 2, min q_l q_r), ((q_r - q_l) / 2, max q_l q_r)] \<and>
   hll_s1 q_l q_r * (hll_q_m q_l q_r - q_l) + hll_s2 q_l q_r * (q_r - hll_q_m q_l q_r)
     = flux q_r - flux q_l"
proof -
  have "total_flux_jump (hll_waves q_l q_r) = flux q_r - flux q_l"
    using hll_conservation by simp
  then have c:
    "hll_s1 q_l q_r * (hll_q_m q_l q_r - q_l) + hll_s2 q_l q_r * (q_r - hll_q_m q_l q_r)
       = flux q_r - flux q_l"
    by (simp add: total_flux_jump_def hll_waves_def)
  show ?thesis
    using c by (simp add: hll_waves_def hll_half_jump hll_s1_def hll_s2_def)
      (simp add: hll_q_m_def add.commute)
qed

theorem hll_two_wave_witness:
  "hll_waves (- 1) 2 = [(3 / 2, - 1), (3 / 2, 2)] \<and>
   hll_waves 2 1 = [(- 1 / 2, 1), (- 1 / 2, 2)] \<and>
   hll_q_m (- 1) 2 = 1 / 2"
  using hll_two_wave [of "- 1" 2] hll_two_wave [of 2 1] by simp

end
